theory Spec2Isabelle
  imports Main "HOL-Library.Word"
begin

section \<open>Regular expressions of Python's \<open>re\<close>, as far as the module uses them\<close>

text \<open>
  The module compiles two patterns, \<^verbatim>\<open>^classes(\d*).dex$\<close> and
  \<^verbatim>\<open>^classes(\d+)?.dex$\<close>, and applies them with \<^verbatim>\<open>match\<close> and
  \<^verbatim>\<open>search\<close>. Entry names are strings over the code points below 256; in that
  range \<^verbatim>\<open>\d\<close> is the class of the ten ASCII digits. No flag is given, so
  \<^verbatim>\<open>.\<close> is any character but the newline, \<^verbatim>\<open>^\<close> holds at position 0
  only, and \<^verbatim>\<open>$\<close> holds at the end of the string and just before a newline
  that ends the string.
\<close>

datatype regex =
    Chr char
  | Digit
  | AnyChar
  | Bol
  | Eol
  | Eps
  | Seq regex regex
  | Alt regex regex
  | Star regex

definition Plus :: "regex \<Rightarrow> regex" where
  "Plus r = Seq r (Star r)"

definition Opt :: "regex \<Rightarrow> regex" where
  "Opt r = Alt r Eps"

text \<open>A capturing group changes nothing about whether a string matches.\<close>

definition Group :: "regex \<Rightarrow> regex" where
  "Group r = r"

fun seqs :: "regex list \<Rightarrow> regex" where
  "seqs [] = Eps"
| "seqs (r # rs) = Seq r (seqs rs)"

definition newline :: char where
  "newline = CHR 0x0A"

definition is_digit :: "char \<Rightarrow> bool" where
  "is_digit c = (48 \<le> (of_char c :: nat) \<and> (of_char c :: nat) \<le> 57)"

text \<open>
  A matcher state is the number of characters consumed so far and the rest of the
  string. \<open>rmatch r st\<close> lists the states in which a match of \<open>r\<close> that starts in
  \<open>st\<close> can end, in the order a backtracking matcher tries them (greedy first).
  An iteration of \<open>Star\<close> that consumes nothing is not repeated.
\<close>

function rmatch :: "regex \<Rightarrow> nat \<times> string \<Rightarrow> (nat \<times> string) list" where
  "rmatch (Chr c) (i, s) = (case s of [] \<Rightarrow> [] | x # t \<Rightarrow> if x = c then [(Suc i, t)] else [])"
| "rmatch Digit (i, s) = (case s of [] \<Rightarrow> [] | x # t \<Rightarrow> if is_digit x then [(Suc i, t)] else [])"
| "rmatch AnyChar (i, s) = (case s of [] \<Rightarrow> [] | x # t \<Rightarrow> if x \<noteq> newline then [(Suc i, t)] else [])"
| "rmatch Bol (i, s) = (if i = 0 then [(i, s)] else [])"
| "rmatch Eol (i, s) = (if s = [] \<or> s = [newline] then [(i, s)] else [])"
| "rmatch Eps (i, s) = [(i, s)]"
| "rmatch (Seq a b) (i, s) = concat (map (rmatch b) (rmatch a (i, s)))"
| "rmatch (Alt a b) (i, s) = rmatch a (i, s) @ rmatch b (i, s)"
| "rmatch (Star a) (i, s) =
     concat (map (rmatch (Star a))
                 (filter (\<lambda>st. length (snd st) < length s) (rmatch a (i, s))))
     @ [(i, s)]"
  by pat_completeness auto
termination
  by (relation "measures [\<lambda>(r, st). size r, \<lambda>(r, st). length (snd st)]") auto

text \<open>\<^verbatim>\<open>pattern.match(s)\<close>: a match that starts at position 0 (its truth value).\<close>

definition re_match :: "regex \<Rightarrow> string \<Rightarrow> bool" where
  "re_match p s = (rmatch p (0, s) \<noteq> [])"

text \<open>\<^verbatim>\<open>pattern.search(s)\<close>: a match that starts at some position of the string.\<close>

definition re_search :: "regex \<Rightarrow> string \<Rightarrow> bool" where
  "re_search p s = list_ex (\<lambda>i. rmatch p (i, drop i s) \<noteq> []) [0..<Suc (length s)]"

text \<open>The pattern of \<^verbatim>\<open>get_dex_names\<close>: \<^verbatim>\<open>^classes(\d*).dex$\<close>.\<close>

definition dexre_names :: regex where
  "dexre_names =
     seqs ([Bol] @ map Chr ''classes'' @ [Group (Star Digit), AnyChar] @ map Chr ''dex'' @ [Eol])"

text \<open>The pattern of \<^verbatim>\<open>is_multidex\<close>: \<^verbatim>\<open>^classes(\d+)?.dex$\<close>.\<close>

definition dexre_multi :: regex where
  "dexre_multi =
     seqs ([Bol] @ map Chr ''classes'' @ [Opt (Group (Plus Digit)), AnyChar] @ map Chr ''dex'' @ [Eol])"


section \<open>The archive object\<close>

type_synonym bytes = "8 word list"

text \<open>
  The exceptions that cross the methods of the class: Python's \<^verbatim>\<open>KeyError\<close>
  (with the key), \<^verbatim>\<open>NameError\<close> and \<^verbatim>\<open>AttributeError\<close> (with the name
  that has no binding), the module's own \<^verbatim>\<open>FileNotPresent\<close> (with the file
  name) and \<^verbatim>\<open>BrokenAPKError\<close>, and any other exception raised inside a
  collaborator, named by its class.
\<close>

datatype exn =
    KeyError string
  | NameError string
  | AttributeError string
  | FileNotPresent string
  | BrokenAPKError
  | ExternalError string

text \<open>
  The structural parser \<^verbatim>\<open>headers.ZipEntry\<close> is outside the module. The class
  uses three things of the parsed archive: \<^verbatim>\<open>namelist()\<close>,
  \<^verbatim>\<open>read(name)\<close>, and \<^verbatim>\<open>infolist()[name].crc32_of_uncompressed_data\<close>.
  They are taken as they are used: a list of names, a function that returns the bytes
  or raises, and a dictionary of entry records.
\<close>

record ZipInfo =
  crc32_of_uncompressed_data :: int

record ZipEntry =
  namelist :: "string list"
  read :: "string \<Rightarrow> exn + bytes"
  infolist :: "string \<rightharpoonup> ZipInfo"

text \<open>
  What the checksum path asks of its collaborators, in order: a call of
  \<^verbatim>\<open>zip.read\<close>, a call of \<^verbatim>\<open>crc32\<close>, a call of
  \<^verbatim>\<open>logger.error\<close> with the three values it formats (file name, declared
  checksum, calculated checksum).
\<close>

datatype event =
    ZipRead string
  | Crc32 bytes
  | LogError string int int

text \<open>
  The fields of \<^verbatim>\<open>APK\<close> that its methods read or write. The dictionary
  \<^verbatim>\<open>files_crc32\<close> keeps insertion order, so it is an association list; a key
  is only ever inserted when absent. \<open>trace\<close> is not a field of the class: it
  records the events above, as a test double of the collaborators would.
\<close>

record APK =
  package :: string
  valid_apk :: bool
  sha256 :: string
  filename :: string
  zip :: ZipEntry
  files_crc32 :: "(string \<times> int) list"
  trace :: "event list"

text \<open>
  \<^verbatim>\<open>APK.__init__\<close>. The digest function of \<^verbatim>\<open>hashlib\<close> and the parser
  \<^verbatim>\<open>headers.ZipEntry.parse\<close> are parameters. The constructor has no
  \<^verbatim>\<open>try\<close>: an exception of the parser leaves it as it is, and no object is returned.
\<close>

definition new_APK :: "string \<Rightarrow> ZipEntry \<Rightarrow> APK" where
  "new_APK h z =
     \<lparr>package = [], valid_apk = False, sha256 = h,
      filename = ''raw_apk_sha256:'' @ h, zip = z, files_crc32 = [], trace = []\<rparr>"

definition APK_init :: "(bytes \<Rightarrow> string) \<Rightarrow> (bytes \<Rightarrow> exn + ZipEntry) \<Rightarrow> bytes \<Rightarrow> exn + APK" where
  "APK_init sha256_hexdigest parse raw =
     (let h = sha256_hexdigest raw in
      case parse raw of
        Inl e \<Rightarrow> Inl e
      | Inr z \<Rightarrow> Inr (new_APK h z))"

definition get_files :: "APK \<Rightarrow> string list" where
  "get_files a = namelist (zip a)"

text \<open>\<^verbatim>\<open>get_file\<close>: a \<^verbatim>\<open>KeyError\<close> of the parser becomes \<^verbatim>\<open>FileNotPresent(filename)\<close>.\<close>

definition get_file :: "APK \<Rightarrow> string \<Rightarrow> exn + bytes" where
  "get_file a fname =
     (case read (zip a) fname of
        Inl (KeyError k) \<Rightarrow> Inl (FileNotPresent fname)
      | Inl e \<Rightarrow> Inl e
      | Inr b \<Rightarrow> Inr b)"


definition get_dex_names :: "APK \<Rightarrow> string list" where
  "get_dex_names a = filter (\<lambda>x. re_match dexre_names x) (get_files a)"

definition is_multidex :: "APK \<Rightarrow> bool" where
  "is_multidex a = (length (filter (\<lambda>instance. re_search dexre_multi instance) (get_files a)) > 1)"

subsection \<open>Names without a binding\<close>

text \<open>
  The imports of the module bind \<^verbatim>\<open>io\<close>, \<^verbatim>\<open>re\<close>, \<^verbatim>\<open>hashlib\<close>,
  the names of \<^verbatim>\<open>typing\<close>, \<^verbatim>\<open>LOGGER\<close> and \<^verbatim>\<open>headers\<close>. The
  methods also use the global names \<^verbatim>\<open>crc32\<close> and \<^verbatim>\<open>logger\<close>, which the
  module binds nowhere and which are no builtins, and the attribute
  \<^verbatim>\<open>self.get_files_types\<close>, which the class does not define (it has no
  \<^verbatim>\<open>__getattr__\<close> either). Evaluating such a name raises; the three
  definitions below are what evaluating each of them gives.
\<close>

definition global_crc32 :: "exn + (bytes \<Rightarrow> int)" where
  "global_crc32 = Inl (NameError ''crc32'')"

definition global_logger :: "exn + unit" where
  "global_logger = Inl (NameError ''logger'')"

definition attr_get_files_types :: "exn + (string \<rightharpoonup> string)" where
  "attr_get_files_types = Inl (AttributeError ''get_files_types'')"

subsection \<open>The checksum methods\<close>

text \<open>
  \<^verbatim>\<open>_get_crc32\<close>. The entry is read before the dictionary is consulted. For a
  name that is not in the dictionary the right-hand side \<^verbatim>\<open>crc32(buffer)\<close> is
  evaluated first, and the dictionary is written before the comparison; the call of
  \<^verbatim>\<open>logger.error\<close> evaluates \<^verbatim>\<open>logger\<close> first. The method returns the
  buffer.
\<close>

definition get_crc32 :: "string \<Rightarrow> APK \<Rightarrow> (exn + bytes) \<times> APK" where
  "get_crc32 fname a =
     (let a1 = a\<lparr>trace := trace a @ [ZipRead fname]\<rparr> in
      case read (zip a) fname of
        Inl e \<Rightarrow> (Inl e, a1)
      | Inr buffer \<Rightarrow>
          if map_of (files_crc32 a1) fname = None then
            (case global_crc32 of
               Inl e \<Rightarrow> (Inl e, a1)
             | Inr crc32 \<Rightarrow>
                 (let c = crc32 buffer;
                      a2 = a1\<lparr>files_crc32 := files_crc32 a1 @ [(fname, c)],
                              trace := trace a1 @ [Crc32 buffer]\<rparr>
                  in case infolist (zip a) fname of
                       None \<Rightarrow> (Inl (KeyError fname), a2)
                     | Some info \<Rightarrow>
                         if c \<noteq> crc32_of_uncompressed_data info
                         then (case global_logger of
                                 Inl e \<Rightarrow> (Inl e, a2)
                               | Inr u \<Rightarrow>
                                   (Inr buffer,
                                    a2\<lparr>trace := trace a2 @
                                      [LogError fname (crc32_of_uncompressed_data info) c]\<rparr>))
                         else (Inr buffer, a2)))
          else (Inr buffer, a1))"

text \<open>The loop of \<^verbatim>\<open>get_files_crc32\<close>; an exception ends it.\<close>

fun crc32_each :: "string list \<Rightarrow> APK \<Rightarrow> (exn + unit) \<times> APK" where
  "crc32_each [] a = (Inr (), a)"
| "crc32_each (i # rest) a =
     (case get_crc32 i a of
        (Inl e, a') \<Rightarrow> (Inl e, a')
      | (Inr buffer, a') \<Rightarrow> crc32_each rest a')"

definition get_files_crc32 :: "APK \<Rightarrow> (exn + (string \<times> int) list) \<times> APK" where
  "get_files_crc32 a =
     (if files_crc32 a = [] then
        (case crc32_each (get_files a) a of
           (Inl e, a') \<Rightarrow> (Inl e, a')
         | (Inr u, a') \<Rightarrow> (Inr (files_crc32 a'), a'))
      else (Inr (files_crc32 a), a))"

text \<open>
  \<^verbatim>\<open>get_files_information\<close>, consumed to its end: the tuples it yields, the
  exception that ended it if one did, and the object afterwards. The elements of the
  tuple are evaluated from left to right: \<^verbatim>\<open>k\<close>, then
  \<^verbatim>\<open>self.get_files_types()[k]\<close>, then \<^verbatim>\<open>self.get_files_crc32()[k]\<close>. A
  subscript with a missing key raises \<^verbatim>\<open>KeyError\<close>. The generator has no
  \<^verbatim>\<open>try\<close>, so an exception ends it.
\<close>

fun files_information_from ::
  "string list \<Rightarrow> APK \<Rightarrow> (string \<times> string \<times> int) list \<times> exn option \<times> APK" where
  "files_information_from [] a = ([], None, a)"
| "files_information_from (k # ks) a =
     (case attr_get_files_types of
        Inl e \<Rightarrow> ([], Some e, a)
      | Inr files_types \<Rightarrow>
          (case files_types k of
             None \<Rightarrow> ([], Some (KeyError k), a)
           | Some t \<Rightarrow>
               (case get_files_crc32 a of
                  (Inl e, a') \<Rightarrow> ([], Some e, a')
                | (Inr d, a') \<Rightarrow>
                    (case map_of d k of
                       None \<Rightarrow> ([], Some (KeyError k), a')
                     | Some c \<Rightarrow>
                         (case files_information_from ks a' of
                            (ys, err, a'') \<Rightarrow> ((k, t, c) # ys, err, a''))))))"

definition get_files_information ::
  "APK \<Rightarrow> (string \<times> string \<times> int) list \<times> exn option \<times> APK" where
  "get_files_information a = files_information_from (get_files a) a"


subsection \<open>A parsed archive given by a table\<close>

text \<open>
  For concrete archives: a table of entries, each with its name, what reading it gives
  (the bytes, or the exception raised), and its declared checksum. Reading a name that
  is not in the table raises \<^verbatim>\<open>KeyError\<close>.
\<close>

definition zip_of :: "(string \<times> (exn + bytes) \<times> int) list \<Rightarrow> ZipEntry" where
  "zip_of tab =
     \<lparr>namelist = map fst tab,
      read = (\<lambda>n. case map_of tab n of None \<Rightarrow> Inl (KeyError n) | Some (r, c) \<Rightarrow> r),
      infolist = (\<lambda>n. case map_of tab n of None \<Rightarrow> None
                      | Some (r, c) \<Rightarrow> Some \<lparr>crc32_of_uncompressed_data = c\<rparr>)\<rparr>"


subsection \<open>What the parser's \<^verbatim>\<open>read\<close> is expected to raise\<close>

text \<open>
  The class relies on \<^verbatim>\<open>zip.read(name)\<close> raising \<^verbatim>\<open>KeyError\<close> for a name
  that is not in the archive, and on its never raising the module's own
  \<^verbatim>\<open>FileNotPresent\<close>. The two tests below read a result for that.
\<close>

definition is_KeyError :: "exn + bytes \<Rightarrow> bool" where
  "is_KeyError r = (case r of Inl (KeyError k) \<Rightarrow> True | _ \<Rightarrow> False)"

definition is_FileNotPresent :: "exn + bytes \<Rightarrow> bool" where
  "is_FileNotPresent r = (case r of Inl (FileNotPresent f) \<Rightarrow> True | _ \<Rightarrow> False)"


subsection \<open>Reading the trace\<close>

definition reads_of :: "string \<Rightarrow> event list \<Rightarrow> nat" where
  "reads_of n tr = length (filter (\<lambda>e. e = ZipRead n) tr)"

definition crc32_calls :: "event list \<Rightarrow> nat" where
  "crc32_calls tr = length (filter (\<lambda>e. case e of Crc32 b \<Rightarrow> True | _ \<Rightarrow> False) tr)"

definition log_errors :: "event list \<Rightarrow> event list" where
  "log_errors tr = filter (\<lambda>e. case e of LogError f d c \<Rightarrow> True | _ \<Rightarrow> False) tr"


section \<open>The two patterns\<close>

lemma set_rmatch_Seq:
  "set (rmatch (Seq a b) st) = (\<Union>t\<in>set (rmatch a st). set (rmatch b t))"
  by (cases st) simp

lemma set_rmatch_Alt:
  "set (rmatch (Alt a b) st) = set (rmatch a st) \<union> set (rmatch b st)"
  by (cases st) simp

lemma rmatch_Digit_shorter:
  "t \<in> set (rmatch Digit (i, s)) \<Longrightarrow> length (snd t) < length s"
  by (cases s) (auto split: if_splits)

lemma set_rmatch_Star_Digit:
  "set (rmatch (Star Digit) st) =
     insert st (\<Union>t\<in>set (rmatch Digit st). set (rmatch (Star Digit) t))"
proof (cases st)
  case (Pair i s)
  have "filter (\<lambda>t. length (snd t) < length s) (rmatch Digit (i, s)) = rmatch Digit (i, s)"
    by (rule filter_True) (auto dest: rmatch_Digit_shorter)
  then show ?thesis using Pair by simp
qed

lemma digits_star_eq_opt_plus:
  "set (rmatch (Opt (Group (Plus Digit))) st) = set (rmatch (Group (Star Digit)) st)"
proof -
  have "set (rmatch (Alt (Seq Digit (Star Digit)) Eps) st) =
          insert st (\<Union>t\<in>set (rmatch Digit st). set (rmatch (Star Digit) t))"
    by (cases st) (simp only: set_rmatch_Alt set_rmatch_Seq rmatch.simps, simp)
  then show ?thesis
    unfolding Opt_def Group_def Plus_def by (simp only: set_rmatch_Star_Digit [of st])
qed

lemma set_rmatch_Seq_cong:
  "(\<And>t. set (rmatch b t) = set (rmatch b' t)) \<Longrightarrow>
   set (rmatch (Seq a b) st) = set (rmatch (Seq a b') st)"
  by (simp add: set_rmatch_Seq)

lemma dexre_same_ends: "set (rmatch dexre_multi st) = set (rmatch dexre_names st)"
  unfolding dexre_multi_def dexre_names_def
  by (simp only: append.simps list.map seqs.simps String.explode_code set_rmatch_Seq digits_star_eq_opt_plus)

lemma rmatch_Bol_Seq:
  "rmatch (Seq Bol r) (i, s) = (if i = 0 then rmatch r (0, s) else [])"
  by simp

lemma re_search_Bol: "re_search (Seq Bol r) s = re_match (Seq Bol r) s"
proof -
  have "re_search (Seq Bol r) s = (\<exists>i<Suc (length s). rmatch (Seq Bol r) (i, drop i s) \<noteq> [])"
    unfolding re_search_def list_ex_iff by auto
  also have "\<dots> = (rmatch (Seq Bol r) (0, s) \<noteq> [])"
    by (auto simp del: rmatch.simps simp add: rmatch_Bol_Seq split: if_splits)
  finally show ?thesis by (simp add: re_match_def)
qed

lemma dexre_multi_Bol: "\<exists>r. dexre_multi = Seq Bol r"
  by (simp add: dexre_multi_def)

lemma search_multi_eq_match_names:
  "re_search dexre_multi s = re_match dexre_names s"
proof -
  obtain r where r: "dexre_multi = Seq Bol r" using dexre_multi_Bol by blast
  have "re_search dexre_multi s = re_match dexre_multi s"
    unfolding r by (rule re_search_Bol)
  also have "\<dots> = (set (rmatch dexre_multi (0, s)) \<noteq> {})" by (simp add: re_match_def)
  also have "\<dots> = (set (rmatch dexre_names (0, s)) \<noteq> {})" by (simp only: dexre_same_ends)
  also have "\<dots> = re_match dexre_names s" by (simp add: re_match_def)
  finally show ?thesis .
qed


text \<open>From here on the equations of \<open>rmatch\<close> are used only where named.\<close>

declare rmatch.simps [simp del]

lemma set_rmatch_Digit:
  "set (rmatch Digit (i, s)) = {(Suc i, t) | x t. s = x # t \<and> is_digit x}"
  by (cases s) (auto simp: rmatch.simps(2))











lemma search_multi_eq_match_names_fun: "re_search dexre_multi = re_match dexre_names"
  by (rule ext) (rule search_multi_eq_match_names)

lemmas match_eval =
  re_match_def dexre_names_def Group_def is_digit_def newline_def rmatch.simps

lemmas apk_eval =
  new_APK_def zip_of_def get_files_def get_dex_names_def is_multidex_def
  search_multi_eq_match_names_fun

lemma dex_name_samples:
  "re_match dexre_names ''classes.dex''" "re_match dexre_names ''classes2.dex''"
  "re_match dexre_names ''classes/dex''" "re_match dexre_names ''classes_dex''"
  "\<not> re_match dexre_names ''lib/classes2.dex''"
  by (simp_all add: match_eval)

text \<open>
  C9: the pattern of \<^verbatim>\<open>get_dex_names\<close>, applied with \<^verbatim>\<open>match\<close>, and
  the pattern of \<^verbatim>\<open>is_multidex\<close>, applied with \<^verbatim>\<open>search\<close>, accept the
  same names.
\<close>

theorem dex_patterns_agree:
  "re_match dexre_names x = re_search dexre_multi x"
  by (simp only: search_multi_eq_match_names)

text \<open>
  C2, at names the enumeration should refuse: the dot of the pattern is not escaped,
  so any character but the newline may stand before \<^verbatim>\<open>dex\<close>, and the
  \<^verbatim>\<open>$\<close> lets a newline follow. An archive with the entries
  \<^verbatim>\<open>classes.dex\<close>, \<^verbatim>\<open>classes/dex\<close> and \<^verbatim>\<open>classes_dex\<close> has all
  three enumerated, while the names the claim lists get the answers the claim gives.
\<close>

theorem get_dex_names_unescaped_dot:
  "get_dex_names (new_APK ''00'' (zip_of
       [(''classes.dex'', Inr [], 0), (''classes/dex'', Inr [], 0), (''classes_dex'', Inr [], 0)]))
     = [''classes.dex'', ''classes/dex'', ''classes_dex'']
   \<and> re_match dexre_names (''classes.dex'' @ [newline])
   \<and> re_match dexre_names ''classes.dex'' \<and> re_match dexre_names ''classes2.dex''
   \<and> \<not> re_match dexre_names ''classes.DEX'' \<and> \<not> re_match dexre_names ''lib/classes2.dex''
   \<and> \<not> re_match dexre_names ''classesX.dex''"
proof -
  have "re_match dexre_names (''classes.dex'' @ [newline])"
    "\<not> re_match dexre_names ''classes.DEX''" "\<not> re_match dexre_names ''classesX.dex''"
    by (simp_all add: match_eval)
  then show ?thesis by (simp add: apk_eval dex_name_samples)
qed






section \<open>Reading entries and opening the container\<close>

lemmas table_eval = new_APK_def zip_of_def get_files_def is_KeyError_def is_FileNotPresent_def

text \<open>
  C7: \<^verbatim>\<open>get_file\<close> fails with \<^verbatim>\<open>FileNotPresent\<close> exactly when the name is
  not in the archive, for a parser whose \<^verbatim>\<open>read\<close> raises \<^verbatim>\<open>KeyError\<close>
  exactly for such names; for a name of the archive it gives what the parser's
  \<^verbatim>\<open>read\<close> gives: the bytes, or the parser's exception for corrupt data, which
  is passed on as it is and is not \<^verbatim>\<open>FileNotPresent\<close>.
\<close>

theorem get_file_result:
  assumes "is_KeyError (read (zip a) n) = (n \<notin> set (get_files a))"
    and "\<not> is_FileNotPresent (read (zip a) n)"
  shows "(get_file a n = Inl (FileNotPresent n)) = (n \<notin> set (get_files a))
       \<and> is_FileNotPresent (get_file a n) = (n \<notin> set (get_files a))
       \<and> (n \<in> set (get_files a) \<longrightarrow> get_file a n = read (zip a) n)
       \<and> (\<forall>b. read (zip a) n = Inr b \<longrightarrow> get_file a n = Inr b)
       \<and> (\<forall>m. read (zip a) n = Inl (ExternalError m) \<longrightarrow>
             get_file a n = Inl (ExternalError m))"
proof (cases "read (zip a) n")
  case (Inr b)
  then show ?thesis using assms
    by (simp add: get_file_def is_KeyError_def is_FileNotPresent_def)
next
  case (Inl e)
  then show ?thesis using assms
    by (cases e) (simp_all add: get_file_def is_KeyError_def is_FileNotPresent_def)
qed

theorem get_file_result_witness:
  "get_file (new_APK ''00'' (zip_of
       [(''a.txt'', Inr [1, 2], 0), (''bad'', Inl (ExternalError ''zlib.error''), 0)])) ''a.txt''
     = Inr [1, 2]
   \<and> get_file (new_APK ''00'' (zip_of
       [(''a.txt'', Inr [1, 2], 0), (''bad'', Inl (ExternalError ''zlib.error''), 0)])) ''bad''
     = Inl (ExternalError ''zlib.error'')
   \<and> get_file (new_APK ''00'' (zip_of
       [(''a.txt'', Inr [1, 2], 0), (''bad'', Inl (ExternalError ''zlib.error''), 0)])) ''none''
     = Inl (FileNotPresent ''none'')"
  using
    get_file_result [of "new_APK ''00'' (zip_of
       [(''a.txt'', Inr [1, 2], 0), (''bad'', Inl (ExternalError ''zlib.error''), 0)])" "''a.txt''"]
    get_file_result [of "new_APK ''00'' (zip_of
       [(''a.txt'', Inr [1, 2], 0), (''bad'', Inl (ExternalError ''zlib.error''), 0)])" "''bad''"]
    get_file_result [of "new_APK ''00'' (zip_of
       [(''a.txt'', Inr [1, 2], 0), (''bad'', Inl (ExternalError ''zlib.error''), 0)])" "''none''"]
  by (simp add: table_eval)



text \<open>
  C8 as stated fails: a parser that raises something other than
  \<^verbatim>\<open>BrokenAPKError\<close> (here \<^verbatim>\<open>struct.error\<close>, on an empty input) makes the
  constructor fail with that exception, not with \<^verbatim>\<open>BrokenAPKError\<close>.
\<close>

theorem APK_init_counterexample:
  "APK_init (\<lambda>raw. ''e3b0c442'') (\<lambda>raw. Inl (ExternalError ''struct.error'')) []
     = Inl (ExternalError ''struct.error'')
   \<and> APK_init (\<lambda>raw. ''e3b0c442'') (\<lambda>raw. Inl (ExternalError ''struct.error'')) []
     \<noteq> Inl BrokenAPKError"
  by (simp add: APK_init_def)

text \<open>
  C8 as amended: when the parser fails on the raw bytes, the constructor fails with
  the parser's exception, unchanged, and returns no object; it fails with
  \<^verbatim>\<open>BrokenAPKError\<close> only if that is what the parser raised. An object is
  returned exactly when the parser returns an archive.
\<close>

theorem APK_init_propagates:
  "(parse raw = Inl e \<longrightarrow> APK_init sha256_hexdigest parse raw = Inl e)
   \<and> (APK_init sha256_hexdigest parse raw = Inl BrokenAPKError) = (parse raw = Inl BrokenAPKError)
   \<and> (\<exists>a. APK_init sha256_hexdigest parse raw = Inr a) = (\<exists>z. parse raw = Inr z)"
  by (cases "parse raw") (auto simp: APK_init_def)

theorem APK_init_propagates_witness:
  "APK_init (\<lambda>raw. ''e3b0c442'') (\<lambda>raw. Inl (KeyError ''eocd'')) [80, 75] = Inl (KeyError ''eocd'')"
  using APK_init_propagates [of "\<lambda>raw. Inl (KeyError ''eocd'')" "[80, 75]" "KeyError ''eocd''"
      "\<lambda>raw. ''e3b0c442''"]
  by simp

section \<open>The checksum path\<close>

lemma get_crc32_as_written:
  "get_crc32 n a =
     (case read (zip a) n of
        Inl e \<Rightarrow> (Inl e, a\<lparr>trace := trace a @ [ZipRead n]\<rparr>)
      | Inr b \<Rightarrow>
          if map_of (files_crc32 a) n = None
          then (Inl (NameError ''crc32''), a\<lparr>trace := trace a @ [ZipRead n]\<rparr>)
          else (Inr b, a\<lparr>trace := trace a @ [ZipRead n]\<rparr>))"
  by (auto simp: get_crc32_def global_crc32_def Let_def split: sum.split)

lemma get_crc32_state:
  "snd (get_crc32 n a) = a\<lparr>trace := trace a @ [ZipRead n]\<rparr>"
  by (simp add: get_crc32_as_written split: sum.split)


lemmas table_run = new_APK_def zip_of_def get_files_def get_crc32_as_written

lemmas trace_eval = reads_of_def crc32_calls_def log_errors_def

text \<open>
  C4, at an archive with one readable entry: the first request for the entry reads it
  and then raises \<^verbatim>\<open>NameError\<close>, because \<^verbatim>\<open>crc32\<close> has no binding; no
  bytes are returned and nothing is stored, so the second request reads the entry
  again and raises again. In general a request gives the bytes only for a name that is
  already in the dictionary, and every request reads the entry.
\<close>

theorem get_crc32_twice_raises:
  "get_crc32 n a =
     (case read (zip a) n of
        Inl e \<Rightarrow> (Inl e, a\<lparr>trace := trace a @ [ZipRead n]\<rparr>)
      | Inr b \<Rightarrow>
          if map_of (files_crc32 a) n = None
          then (Inl (NameError ''crc32''), a\<lparr>trace := trace a @ [ZipRead n]\<rparr>)
          else (Inr b, a\<lparr>trace := trace a @ [ZipRead n]\<rparr>))
   \<and> get_crc32 ''a.txt'' (new_APK ''00'' (zip_of [(''a.txt'', Inr [1, 2, 3], 3)]))
     = (Inl (NameError ''crc32''),
        (new_APK ''00'' (zip_of [(''a.txt'', Inr [1, 2, 3], 3)]))\<lparr>trace := [ZipRead ''a.txt'']\<rparr>)
   \<and> get_crc32 ''a.txt''
        ((new_APK ''00'' (zip_of [(''a.txt'', Inr [1, 2, 3], 3)]))\<lparr>trace := [ZipRead ''a.txt'']\<rparr>)
     = (Inl (NameError ''crc32''),
        (new_APK ''00'' (zip_of [(''a.txt'', Inr [1, 2, 3], 3)]))
          \<lparr>trace := [ZipRead ''a.txt'', ZipRead ''a.txt'']\<rparr>)
   \<and> files_crc32 (snd (get_crc32 ''a.txt'' (snd (get_crc32 ''a.txt''
        (new_APK ''00'' (zip_of [(''a.txt'', Inr [1, 2, 3], 3)])))))) = []
   \<and> reads_of ''a.txt'' (trace (snd (get_crc32 ''a.txt'' (snd (get_crc32 ''a.txt''
        (new_APK ''00'' (zip_of [(''a.txt'', Inr [1, 2, 3], 3)]))))))) = 2
   \<and> crc32_calls (trace (snd (get_crc32 ''a.txt'' (snd (get_crc32 ''a.txt''
        (new_APK ''00'' (zip_of [(''a.txt'', Inr [1, 2, 3], 3)]))))))) = 0"
proof (intro conjI)
  show "get_crc32 n a =
     (case read (zip a) n of
        Inl e \<Rightarrow> (Inl e, a\<lparr>trace := trace a @ [ZipRead n]\<rparr>)
      | Inr b \<Rightarrow>
          if map_of (files_crc32 a) n = None
          then (Inl (NameError ''crc32''), a\<lparr>trace := trace a @ [ZipRead n]\<rparr>)
          else (Inr b, a\<lparr>trace := trace a @ [ZipRead n]\<rparr>))"
    by (rule get_crc32_as_written)
qed (simp_all add: table_run trace_eval)

text \<open>
  C5, at an archive whose entry has a declared checksum that its bytes do not have: the
  request raises \<^verbatim>\<open>NameError\<close> at \<^verbatim>\<open>crc32(buffer)\<close>, before the comparison;
  no \<^verbatim>\<open>logger.error\<close> is emitted and no checksum is stored. No request on any
  archive emits a diagnostic or changes the dictionary.
\<close>

theorem get_crc32_mismatch_raises:
  "get_crc32 ''a.txt'' (new_APK ''00'' (zip_of [(''a.txt'', Inr [1, 2, 3], 7)]))
     = (Inl (NameError ''crc32''),
        (new_APK ''00'' (zip_of [(''a.txt'', Inr [1, 2, 3], 7)]))\<lparr>trace := [ZipRead ''a.txt'']\<rparr>)
   \<and> log_errors (trace (snd (get_crc32 ''a.txt''
        (new_APK ''00'' (zip_of [(''a.txt'', Inr [1, 2, 3], 7)]))))) = []
   \<and> map_of (files_crc32 (snd (get_crc32 ''a.txt''
        (new_APK ''00'' (zip_of [(''a.txt'', Inr [1, 2, 3], 7)]))))) ''a.txt'' = None
   \<and> log_errors (trace (snd (get_crc32 n a))) = log_errors (trace a)
   \<and> files_crc32 (snd (get_crc32 n a)) = files_crc32 a"
proof (intro conjI)
  show "log_errors (trace (snd (get_crc32 n a))) = log_errors (trace a)"
    by (simp add: get_crc32_state log_errors_def)
  show "files_crc32 (snd (get_crc32 n a)) = files_crc32 a"
    by (simp add: get_crc32_state)
qed (simp_all add: table_run trace_eval)

section \<open>The batch operation and the report\<close>



text \<open>
  C6, at an archive with two readable entries and at one whose second entry cannot be
  decompressed: the report yields no tuple and ends with \<^verbatim>\<open>AttributeError\<close>,
  because the class has no \<^verbatim>\<open>get_files_types\<close>; no entry is read. So it is on
  every archive that has an entry.
\<close>

theorem get_files_information_raises:
  "get_files_information a =
     (if get_files a = [] then ([], None, a)
      else ([], Some (AttributeError ''get_files_types''), a))
   \<and> get_files_information
        (new_APK ''00'' (zip_of [(''a.txt'', Inr [1], 1), (''classes.dex'', Inr [100, 101], 9)]))
     = ([], Some (AttributeError ''get_files_types''),
        new_APK ''00'' (zip_of [(''a.txt'', Inr [1], 1), (''classes.dex'', Inr [100, 101], 9)]))
   \<and> get_files_information
        (new_APK ''00'' (zip_of
           [(''a.txt'', Inr [1], 1), (''b.bin'', Inl (ExternalError ''zlib.error''), 0)]))
     = ([], Some (AttributeError ''get_files_types''),
        new_APK ''00'' (zip_of
           [(''a.txt'', Inr [1], 1), (''b.bin'', Inl (ExternalError ''zlib.error''), 0)]))
   \<and> trace (snd (snd (get_files_information
        (new_APK ''00'' (zip_of [(''a.txt'', Inr [1], 1), (''classes.dex'', Inr [100, 101], 9)])))))
     = []"
proof -
  have general: "get_files_information a =
     (if get_files a = [] then ([], None, a)
      else ([], Some (AttributeError ''get_files_types''), a))" for a
    by (cases "get_files a") (simp_all add: get_files_information_def attr_get_files_types_def)
  show ?thesis
    by (simp add: general) (simp add: new_APK_def zip_of_def get_files_def)
qed

end
